theory Spec2Isabelle
  imports Main "HOL-Library.Word"
begin

section \<open>Canvas bitmaps\<close>

text \<open>
  A pixel is the four bytes R, G, B, A of an \<^verbatim>\<open>ImageData\<close> entry. A canvas (and an
  \<^verbatim>\<open>ImageData\<close>, which has the same shape) is its width, its height and its rows of
  pixels. Mouse offsets and crop deltas are integers (\<^verbatim>\<open>offsetX\<close>, \<^verbatim>\<open>offsetY\<close> of a
  mouse event are whole CSS pixels), canvas sizes are naturals (\<^verbatim>\<open>unsigned long\<close>).
\<close>

type_synonym pixel = "8 word \<times> 8 word \<times> 8 word \<times> 8 word"

definition transparent :: pixel where
  "transparent = (0, 0, 0, 0)"

definition red :: pixel where
  "red = (255, 0, 0, 255)"

record html_canvas =
  width :: nat
  height :: nat
  pixels :: "pixel list list"

text \<open>Reading one pixel; outside the bitmap every read is transparent black.\<close>

definition pixel_at :: "html_canvas \<Rightarrow> int \<Rightarrow> int \<Rightarrow> pixel" where
  "pixel_at c x y =
     (if 0 \<le> x \<and> x < int (width c) \<and> 0 \<le> y \<and> y < int (height c)
         \<and> nat y < length (pixels c) \<and> nat x < length (pixels c ! nat y)
      then pixels c ! nat y ! nat x
      else transparent)"

text \<open>A bitmap of a given size whose pixel at column \<open>i\<close>, row \<open>j\<close> is \<open>f i j\<close>.\<close>

definition raster :: "nat \<Rightarrow> nat \<Rightarrow> (int \<Rightarrow> int \<Rightarrow> pixel) \<Rightarrow> html_canvas" where
  "raster w h f =
     \<lparr>width = w, height = h,
      pixels = map (\<lambda>j. map (\<lambda>i. f (int i) (int j)) [0..<w]) [0..<h]\<rparr>"

text \<open>
  \<^verbatim>\<open>document.createElement('canvas')\<close> followed by assignments to \<^verbatim>\<open>width\<close> and
  \<^verbatim>\<open>height\<close>: assigning a dimension clears the bitmap to transparent black.
\<close>

definition createCanvas :: "nat \<Rightarrow> nat \<Rightarrow> html_canvas" where
  "createCanvas w h = raster w h (\<lambda>i j. transparent)"

datatype error = TypeError | InvalidPageRequest | InvalidPDF | IndexSizeError

text \<open>
  \<^verbatim>\<open>ctx.getImageData(sx, sy, sw, sh)\<close>: a zero width or height throws; otherwise the
  result has \<open>|sw|\<close> by \<open>|sh|\<close> pixels, the rectangle with corners \<open>(sx, sy)\<close> and
  \<open>(sx + sw, sy + sh)\<close>, and pixels outside the canvas are transparent black.
\<close>

definition getImageData ::
  "html_canvas \<Rightarrow> int \<Rightarrow> int \<Rightarrow> int \<Rightarrow> int \<Rightarrow> error + html_canvas" where
  "getImageData c sx sy sw sh =
     (if sw = 0 \<or> sh = 0 then Inl IndexSizeError
      else Inr (raster (nat \<bar>sw\<bar>) (nat \<bar>sh\<bar>)
                  (\<lambda>i j. pixel_at c (min sx (sx + sw) + i) (min sy (sy + sh) + j))))"

text \<open>
  \<^verbatim>\<open>ctx.putImageData(imageData, dx, dy)\<close>: the pixels of the image replace those of
  the canvas where the image lies; the canvas keeps its size.
\<close>

definition putImageData :: "html_canvas \<Rightarrow> html_canvas \<Rightarrow> int \<Rightarrow> int \<Rightarrow> html_canvas" where
  "putImageData c img dx dy =
     raster (width c) (height c)
       (\<lambda>i j. if dx \<le> i \<and> i < dx + int (width img) \<and> dy \<le> j \<and> j < dy + int (height img)
               then pixel_at img (i - dx) (j - dy)
               else pixel_at c i j)"

text \<open>
  \<^verbatim>\<open>ctx.drawImage(source, 0, 0)\<close>. Every call in the component draws onto a canvas
  that was cleared just before (by a size assignment or by \<^verbatim>\<open>clearRect\<close> of the whole
  canvas), where source-over compositing leaves the source pixel.
\<close>

definition drawImage :: "html_canvas \<Rightarrow> html_canvas \<Rightarrow> html_canvas" where
  "drawImage c source = putImageData c source 0 0"

text \<open>
  \<^verbatim>\<open>canvas.toDataURL()\<close> is the PNG encoding of the bitmap, and loading it into an
  \<^verbatim>\<open>Image\<close> gives the bitmap back: PNG is lossless.
\<close>

datatype data_url = Png html_canvas

definition toDataURL :: "html_canvas \<Rightarrow> data_url" where
  "toDataURL c = Png c"

fun decode :: "data_url \<Rightarrow> html_canvas" where
  "decode (Png c) = c"

section \<open>The rendering library\<close>

text \<open>
  A page of a document is represented by what the library draws for it at scale 1.5: a
  bitmap of the viewport's size. A document is the list of its pages, and an uploaded
  file is represented by what \<^verbatim>\<open>getDocument\<close> makes of its bytes: a document, or a
  rejection.
\<close>

type_synonym pdf_page = html_canvas
type_synonym pdf_document = "pdf_page list"
type_synonym pdf_file = "error + pdf_document"

definition numPages :: "pdf_document \<Rightarrow> int" where
  "numPages d = int (length d)"

definition getPage :: "pdf_document \<Rightarrow> int \<Rightarrow> error + pdf_page" where
  "getPage d n =
     (if 1 \<le> n \<and> n \<le> numPages d then Inr (d ! nat (n - 1)) else Inl InvalidPageRequest)"

text \<open>
  The canvas takes the viewport's size, then \<^verbatim>\<open>page.render\<close> draws the page on it.
\<close>

definition render :: "pdf_page \<Rightarrow> html_canvas" where
  "render p = drawImage (createCanvas (width p) (height p)) p"

section \<open>The component's state\<close>

record mouse_event =
  offsetX :: int
  offsetY :: int

datatype dom_node =
    CanvasNode html_canvas
  | DownloadLink data_url string string

text \<open>
  The fields both variants of the component share. \<open>canvas\<close> is the off-screen canvas,
  \<open>pdfCanvas\<close> the canvas element of the page, \<open>body\<close> the nodes appended to the
  document body, \<open>console\<close> the lines written by \<^verbatim>\<open>console.error\<close>, and \<open>uncaught\<close>
  the exceptions and promise rejections nobody handles.
\<close>

record view =
  pdfCanvas :: html_canvas
  pdfDoc :: "pdf_document option"
  canvas :: html_canvas
  cropStartX :: int
  cropStartY :: int
  cropWidth :: int
  cropHeight :: int
  isSelecting :: bool
  body :: "dom_node list"
  console :: "string list"
  uncaught :: "error list"

text \<open>The variant with \<open>currentPage\<close> and \<open>totalPages\<close>.\<close>

record component = view +
  currentPage :: int
  totalPages :: int

text \<open>The variant of \<^verbatim>\<open>app.component copy.ts\<close>, with \<open>pageNum\<close> and \<open>page\<close>.\<close>

record component_copy = view +
  pageNum :: int
  page :: "pdf_page option"

text \<open>The state the constructors leave; a canvas is 300 by 150 by default.\<close>

definition init :: component where
  "init =
     \<lparr>pdfCanvas = createCanvas 300 150, pdfDoc = None, canvas = createCanvas 300 150,
      cropStartX = 0, cropStartY = 0, cropWidth = 0, cropHeight = 0, isSelecting = False,
      body = [], console = [], uncaught = [],
      currentPage = 1, totalPages = 0\<rparr>"

definition init_copy :: component_copy where
  "init_copy =
     \<lparr>pdfCanvas = createCanvas 300 150, pdfDoc = None, canvas = createCanvas 300 150,
      cropStartX = 0, cropStartY = 0, cropWidth = 0, cropHeight = 0, isSelecting = False,
      body = [], console = [], uncaught = [],
      pageNum = 1, page = None\<rparr>"

section \<open>Rendering and navigation\<close>

definition displayCanvas :: "'a view_scheme \<Rightarrow> 'a view_scheme" where
  "displayCanvas s =
     s\<lparr>pdfCanvas :=
         drawImage (createCanvas (width (canvas s)) (height (canvas s))) (canvas s)\<rparr>"

text \<open>
  \<open>renderPage\<close> assigns \<open>currentPage\<close> before its first \<^verbatim>\<open>await\<close>, so the assignment
  stands also when the library then rejects.
\<close>

definition renderPage :: "int \<Rightarrow> component \<Rightarrow> component" where
  "renderPage pageNumber s =
     (if pageNumber < 1 \<or> pageNumber > totalPages s then s
      else
        let s1 = s\<lparr>currentPage := pageNumber\<rparr> in
        case pdfDoc s1 of
          None \<Rightarrow> s1\<lparr>uncaught := uncaught s1 @ [TypeError]\<rparr>
        | Some d \<Rightarrow>
            (case getPage d pageNumber of
               Inl e \<Rightarrow> s1\<lparr>uncaught := uncaught s1 @ [e]\<rparr>
             | Inr p \<Rightarrow> displayCanvas (s1\<lparr>canvas := render p\<rparr>)))"

text \<open>\<^verbatim>\<open>input.files && input.files[0]\<close>: only the first file of the picker is read.\<close>

fun loadPdf :: "pdf_file list \<Rightarrow> component \<Rightarrow> component" where
  "loadPdf [] s = s"
| "loadPdf (Inl e # _) s = s\<lparr>uncaught := uncaught s @ [e]\<rparr>"
| "loadPdf (Inr d # _) s =
     (let s1 = s\<lparr>pdfDoc := Some d, totalPages := numPages d\<rparr>
      in renderPage (currentPage s1) s1)"

definition goToPreviousPage :: "component \<Rightarrow> component" where
  "goToPreviousPage s =
     (if currentPage s > 1 then renderPage (currentPage s - 1) s else s)"

definition goToNextPage :: "component \<Rightarrow> component" where
  "goToNextPage s =
     (if currentPage s < totalPages s then renderPage (currentPage s + 1) s else s)"

subsection \<open>The variant of \<^verbatim>\<open>app.component copy.ts\<close>\<close>

definition renderPage_copy :: "int \<Rightarrow> component_copy \<Rightarrow> component_copy" where
  "renderPage_copy pageNumber s =
     (case pdfDoc s of
        None \<Rightarrow> s\<lparr>uncaught := uncaught s @ [TypeError]\<rparr>
      | Some d \<Rightarrow>
          (case getPage d pageNumber of
             Inl e \<Rightarrow> s\<lparr>uncaught := uncaught s @ [e]\<rparr>
           | Inr p \<Rightarrow> displayCanvas (s\<lparr>page := Some p, canvas := render p\<rparr>)))"

fun loadPdf_copy :: "pdf_file list \<Rightarrow> component_copy \<Rightarrow> component_copy" where
  "loadPdf_copy [] s = s"
| "loadPdf_copy (Inl e # _) s = s\<lparr>uncaught := uncaught s @ [e]\<rparr>"
| "loadPdf_copy (Inr d # _) s =
     (let s1 = s\<lparr>pdfDoc := Some d\<rparr> in renderPage_copy (pageNum s1) s1)"

definition goToPreviousPage_copy :: "component_copy \<Rightarrow> component_copy" where
  "goToPreviousPage_copy s =
     (if pageNum s \<le> 1 then s
      else
        let s1 = s\<lparr>pageNum := pageNum s - 1\<rparr> in renderPage_copy (pageNum s1) s1)"

text \<open>\<^verbatim>\<open>this.pdfDoc.numPages\<close> throws when no document was loaded.\<close>

definition goToNextPage_copy :: "component_copy \<Rightarrow> component_copy" where
  "goToNextPage_copy s =
     (case pdfDoc s of
        None \<Rightarrow> s\<lparr>uncaught := uncaught s @ [TypeError]\<rparr>
      | Some d \<Rightarrow>
          if pageNum s \<ge> numPages d then s
          else
            let s1 = s\<lparr>pageNum := pageNum s + 1\<rparr> in renderPage_copy (pageNum s1) s1)"

section \<open>Selecting and cropping\<close>

text \<open>
  These methods are the same text in both variants; they are defined once, on every
  extension of \<open>view\<close>. What \<^verbatim>\<open>ctx.rect\<close> and \<^verbatim>\<open>ctx.stroke\<close> paint (a red line of
  width 2 along the rectangle) is the browser's business: the rasteriser is the
  parameter \<open>stroke\<close>, which takes the canvas and the rectangle's \<open>x\<close>, \<open>y\<close>, width and
  height.
\<close>

type_synonym rasteriser = "html_canvas \<Rightarrow> int \<Rightarrow> int \<Rightarrow> int \<Rightarrow> int \<Rightarrow> html_canvas"

definition startCrop :: "mouse_event \<Rightarrow> 'a view_scheme \<Rightarrow> 'a view_scheme" where
  "startCrop event s =
     s\<lparr>isSelecting := True, cropStartX := offsetX event, cropStartY := offsetY event,
       cropWidth := 0, cropHeight := 0\<rparr>"

definition redrawCanvas :: "'a view_scheme \<Rightarrow> 'a view_scheme" where
  "redrawCanvas s =
     s\<lparr>pdfCanvas :=
         drawImage (createCanvas (width (pdfCanvas s)) (height (pdfCanvas s))) (canvas s)\<rparr>"

definition drawSelectionArea :: "rasteriser \<Rightarrow> 'a view_scheme \<Rightarrow> 'a view_scheme" where
  "drawSelectionArea stroke s =
     s\<lparr>pdfCanvas :=
         stroke (pdfCanvas s) (cropStartX s) (cropStartY s) (cropWidth s) (cropHeight s)\<rparr>"

definition onMouseMove :: "rasteriser \<Rightarrow> mouse_event \<Rightarrow> 'a view_scheme \<Rightarrow> 'a view_scheme" where
  "onMouseMove stroke event s =
     (if isSelecting s
      then drawSelectionArea stroke
             (redrawCanvas
                (s\<lparr>cropWidth := offsetX event - cropStartX s,
                   cropHeight := offsetY event - cropStartY s\<rparr>))
      else s)"

definition displayCroppedImage :: "data_url \<Rightarrow> 'a view_scheme \<Rightarrow> 'a view_scheme" where
  "displayCroppedImage dataUrl s =
     (let img = decode dataUrl;
          croppedCanvas = drawImage (createCanvas (width img) (height img)) img
      in s\<lparr>body := body s @
              [CanvasNode croppedCanvas,
               DownloadLink dataUrl ''cropped_image.png'' ''Download Cropped Image'']\<rparr>)"

definition cropImage :: "'a view_scheme \<Rightarrow> 'a view_scheme" where
  "cropImage s =
     (let croppedCanvas = createCanvas (nat \<bar>cropWidth s\<bar>) (nat \<bar>cropHeight s\<bar>) in
      if cropWidth s \<le> 0 \<or> cropHeight s \<le> 0
      then s\<lparr>console := console s @ [''Invalid crop area'']\<rparr>
      else
        case getImageData (pdfCanvas s) (cropStartX s) (cropStartY s)
               (cropWidth s) (cropHeight s) of
          Inl e \<Rightarrow> s\<lparr>uncaught := uncaught s @ [e]\<rparr>
        | Inr imageData \<Rightarrow>
            displayCroppedImage (toDataURL (putImageData croppedCanvas imageData 0 0)) s)"

definition endCrop :: "'a view_scheme \<Rightarrow> 'a view_scheme" where
  "endCrop s =
     (if cropWidth s = 0 \<or> cropHeight s = 0 then s\<lparr>isSelecting := False\<rparr>
      else cropImage (s\<lparr>isSelecting := False\<rparr>))"

text \<open>The images offered for download, oldest first.\<close>

fun exported :: "dom_node list \<Rightarrow> html_canvas list" where
  "exported [] = []"
| "exported (CanvasNode c # ns) = exported ns"
| "exported (DownloadLink u name label # ns) = decode u # exported ns"

section \<open>Sequences of operations\<close>

datatype operation = Load "pdf_file list" | Forward | Back

fun step :: "component \<Rightarrow> operation \<Rightarrow> component" where
  "step s (Load files) = loadPdf files s"
| "step s Forward = goToNextPage s"
| "step s Back = goToPreviousPage s"

definition run :: "operation list \<Rightarrow> component \<Rightarrow> component" where
  "run ops s = foldl step s ops"

section \<open>Sample inputs\<close>

text \<open>
  A small page whose pixels are all different, documents made of such pages, and a
  rasteriser that paints in red the two-pixel outline centred on the rectangle's edges.
\<close>

definition sample_page :: pdf_page where
  "sample_page = raster 6 5 (\<lambda>i j. (word_of_int i, word_of_int j, 0, 255))"

definition sample_doc :: "nat \<Rightarrow> pdf_document" where
  "sample_doc n = replicate n sample_page"

definition outline :: rasteriser where
  "outline c x y w h =
     raster (width c) (height c)
       (\<lambda>i j.
          let x0 = min x (x + w); x1 = max x (x + w);
              y0 = min y (y + h); y1 = max y (y + h)
          in if x0 - 1 \<le> i \<and> i < x1 + 1 \<and> y0 - 1 \<le> j \<and> j < y1 + 1
                \<and> (i < x0 + 1 \<or> x1 - 1 \<le> i \<or> j < y0 + 1 \<or> y1 - 1 \<le> j)
             then red else pixel_at c i j)"

section \<open>Facts about bitmaps\<close>

lemma pixel_at_raster:
  "pixel_at (raster w h f) x y =
     (if 0 \<le> x \<and> x < int w \<and> 0 \<le> y \<and> y < int h then f x y else transparent)"
proof (cases "0 \<le> x \<and> x < int w \<and> 0 \<le> y \<and> y < int h")
  case True
  then have "nat x < w" and "nat y < h" by linarith+
  with True show ?thesis by (simp add: pixel_at_def raster_def)
next
  case False
  then show ?thesis by (auto simp add: pixel_at_def raster_def)
qed

lemma width_raster: "width (raster w h f) = w"
  by (simp add: raster_def)

lemma height_raster: "height (raster w h f) = h"
  by (simp add: raster_def)

lemma raster_cong:
  assumes "\<And>i j. 0 \<le> i \<Longrightarrow> i < int w \<Longrightarrow> 0 \<le> j \<Longrightarrow> j < int h \<Longrightarrow> f i j = g i j"
  shows "raster w h f = raster w h g"
  using assms by (simp add: raster_def)

lemma put_on_fresh_canvas:
  "putImageData (createCanvas w h) (raster w h f) 0 0 = raster w h f"
  unfolding putImageData_def createCanvas_def width_raster height_raster
  by (rule raster_cong) (simp add: pixel_at_raster)

lemma getImageData_positive:
  "0 < sw \<Longrightarrow> 0 < sh \<Longrightarrow>
   getImageData c sx sy sw sh =
     Inr (raster (nat sw) (nat sh) (\<lambda>i j. pixel_at c (sx + i) (sy + j)))"
  by (simp add: getImageData_def min_def)

section \<open>Facts about rendering and navigation\<close>

text \<open>What \<open>renderPage\<close> and the operations built on it do to each field.\<close>

lemma currentPage_renderPage:
  "currentPage (renderPage n s) = (if n < 1 \<or> n > totalPages s then currentPage s else n)"
  by (simp add: renderPage_def displayCanvas_def Let_def split: option.splits sum.splits)

lemma totalPages_renderPage: "totalPages (renderPage n s) = totalPages s"
  by (simp add: renderPage_def displayCanvas_def Let_def split: option.splits sum.splits)

lemma pdfDoc_renderPage: "pdfDoc (renderPage n s) = pdfDoc s"
  by (simp add: renderPage_def displayCanvas_def Let_def split: option.splits sum.splits)

lemma view_renderPage:
  "body (renderPage n s) = body s \<and> console (renderPage n s) = console s"
  by (simp add: renderPage_def displayCanvas_def Let_def split: option.splits sum.splits)

lemma pageNum_renderPage_copy: "pageNum (renderPage_copy n t) = pageNum t"
  by (simp add: renderPage_copy_def displayCanvas_def split: option.splits sum.splits)

lemma pdfDoc_renderPage_copy: "pdfDoc (renderPage_copy n t) = pdfDoc t"
  by (simp add: renderPage_copy_def displayCanvas_def split: option.splits sum.splits)

lemma currentPage_goToNextPage:
  "currentPage (goToNextPage s) =
     (if currentPage s < totalPages s \<and> 0 \<le> currentPage s then currentPage s + 1
      else currentPage s)"
  by (simp add: goToNextPage_def currentPage_renderPage)

lemma currentPage_goToPreviousPage:
  "currentPage (goToPreviousPage s) =
     (if 1 < currentPage s \<and> currentPage s \<le> totalPages s + 1 then currentPage s - 1
      else currentPage s)"
  by (simp add: goToPreviousPage_def currentPage_renderPage)

lemma totalPages_goToNextPage: "totalPages (goToNextPage s) = totalPages s"
  by (simp add: goToNextPage_def totalPages_renderPage)

lemma totalPages_goToPreviousPage: "totalPages (goToPreviousPage s) = totalPages s"
  by (simp add: goToPreviousPage_def totalPages_renderPage)

lemma pageNum_goToNextPage_copy:
  "pdfDoc t = Some d \<Longrightarrow>
   pageNum (goToNextPage_copy t) = (if pageNum t < numPages d then pageNum t + 1 else pageNum t)"
  by (simp add: goToNextPage_copy_def pageNum_renderPage_copy Let_def)

lemma pageNum_goToPreviousPage_copy:
  "pageNum (goToPreviousPage_copy t) = (if 1 < pageNum t then pageNum t - 1 else pageNum t)"
  by (simp add: goToPreviousPage_copy_def pageNum_renderPage_copy Let_def)

lemma pdfDoc_goToNextPage_copy: "pdfDoc (goToNextPage_copy t) = pdfDoc t"
  by (simp add: goToNextPage_copy_def pdfDoc_renderPage_copy Let_def split: option.splits)

lemma pdfDoc_goToPreviousPage_copy: "pdfDoc (goToPreviousPage_copy t) = pdfDoc t"
  by (simp add: goToPreviousPage_copy_def pdfDoc_renderPage_copy Let_def)

text \<open>
  A load assigns \<open>pdfDoc\<close> and \<open>totalPages\<close> and renders the page \<open>currentPage\<close> holds;
  the page index itself is never assigned by it.
\<close>

lemma currentPage_loadPdf: "currentPage (loadPdf files s) = currentPage s"
  by (cases "(files, s)" rule: loadPdf.cases) (simp_all add: currentPage_renderPage Let_def)

lemma totalPages_loadPdf: "totalPages (loadPdf (Inr d # files) s) = numPages d"
  by (simp add: totalPages_renderPage Let_def)

lemma pdfDoc_loadPdf: "pdfDoc (loadPdf (Inr d # files) s) = Some d"
  by (simp add: pdfDoc_renderPage Let_def)

lemma view_loadPdf:
  "body (loadPdf files s) = body s \<and> console (loadPdf files s) = console s"
  by (cases "(files, s)" rule: loadPdf.cases) (simp_all add: view_renderPage Let_def)

lemma pageNum_loadPdf_copy: "pageNum (loadPdf_copy files t) = pageNum t"
  by (cases "(files, t)" rule: loadPdf_copy.cases) (simp_all add: pageNum_renderPage_copy Let_def)

lemma pdfDoc_loadPdf_copy: "pdfDoc (loadPdf_copy (Inr d # files) t) = Some d"
  by (simp add: pdfDoc_renderPage_copy Let_def)

lemma view_init: "body init = [] \<and> console init = []"
  by (simp add: init_def)

lemma numPages_sample_doc: "numPages (sample_doc n) = int n"
  by (simp add: numPages_def sample_doc_def)

lemmas nav_simps =
  currentPage_goToNextPage totalPages_goToNextPage currentPage_goToPreviousPage
  totalPages_goToPreviousPage currentPage_loadPdf totalPages_loadPdf
  pageNum_goToNextPage_copy pageNum_goToPreviousPage_copy pageNum_loadPdf_copy
  pdfDoc_loadPdf_copy pdfDoc_goToNextPage_copy pdfDoc_goToPreviousPage_copy
  currentPage_renderPage totalPages_renderPage pageNum_renderPage_copy
  pdfDoc_renderPage_copy Let_def

text \<open>
  Between two loads the navigation keeps the page index within the page count.
\<close>

lemma navigation_keeps_bounds:
  assumes "1 \<le> currentPage s" and "currentPage s \<le> totalPages s"
  shows "1 \<le> currentPage (goToNextPage s) \<and> currentPage (goToNextPage s) \<le> totalPages s
       \<and> 1 \<le> currentPage (goToPreviousPage s) \<and> currentPage (goToPreviousPage s) \<le> totalPages s"
  using assms by (simp add: currentPage_goToNextPage currentPage_goToPreviousPage)

section \<open>Facts about selecting and cropping\<close>

lemma cropImage_positive:
  assumes "0 < cropWidth s" and "0 < cropHeight s"
  shows "cropImage s =
     (let img = raster (nat (cropWidth s)) (nat (cropHeight s))
                  (\<lambda>i j. pixel_at (pdfCanvas s) (cropStartX s + i) (cropStartY s + j))
      in s\<lparr>body := body s @
              [CanvasNode img,
               DownloadLink (Png img) ''cropped_image.png'' ''Download Cropped Image'']\<rparr>)"
proof -
  have w: "nat \<bar>cropWidth s\<bar> = nat (cropWidth s)" and h: "nat \<bar>cropHeight s\<bar> = nat (cropHeight s)"
    using assms by simp_all
  show ?thesis
    using assms
    by (simp add: cropImage_def Let_def w h getImageData_positive put_on_fresh_canvas
        displayCroppedImage_def toDataURL_def drawImage_def width_raster height_raster)
qed

lemma cropImage_rejected:
  "cropWidth s \<le> 0 \<or> cropHeight s \<le> 0 \<Longrightarrow>
   cropImage s = s\<lparr>console := console s @ [''Invalid crop area'']\<rparr>"
  by (simp add: cropImage_def Let_def)

lemma isSelecting_cropImage: "isSelecting (cropImage s) = isSelecting s"
  by (simp add: cropImage_def displayCroppedImage_def Let_def split: sum.splits)

lemma rect_cropImage:
  "cropStartX (cropImage s) = cropStartX s \<and> cropStartY (cropImage s) = cropStartY s
   \<and> cropWidth (cropImage s) = cropWidth s \<and> cropHeight (cropImage s) = cropHeight s"
  by (simp add: cropImage_def displayCroppedImage_def Let_def split: sum.splits)

lemma exported_append: "exported (ms @ ns) = exported ms @ exported ns"
  by (induction ms rule: exported.induct) simp_all

text \<open>The state a drag from \<open>(x, y)\<close> to \<open>(x + w, y + h)\<close> leaves before crop-end.\<close>

lemma drag_state:
  "onMouseMove stroke \<lparr>offsetX = x + w, offsetY = y + h\<rparr>
      (startCrop \<lparr>offsetX = x, offsetY = y\<rparr> s) = s1 \<Longrightarrow>
   cropStartX s1 = x \<and> cropStartY s1 = y \<and> cropWidth s1 = w \<and> cropHeight s1 = h
   \<and> body s1 = body s \<and> console s1 = console s \<and> uncaught s1 = uncaught s"
  by (auto simp add: onMouseMove_def startCrop_def drawSelectionArea_def redrawCanvas_def)

lemma moves_idle:
  "\<not> isSelecting s \<Longrightarrow> foldl (\<lambda>t e. onMouseMove stroke e t) s es = s"
  by (induction es) (simp_all add: onMouseMove_def)

section \<open>The claims\<close>

subsection \<open>C1: a drag down and to the right exports the selected rectangle\<close>

text \<open>
  Claim C1. A drag from \<open>(x, y)\<close> to \<open>(x + w, y + h)\<close> with \<open>w\<close> and \<open>h\<close> positive, ended
  by crop-end, appends one image to the page: it is \<open>w\<close> wide and \<open>h\<close> high, and its
  pixel at \<open>(i, j)\<close> is the pixel at \<open>(x + i, y + j)\<close> of the displayed canvas as it is at
  crop-end (the page with the selection outline painted on it; transparent black
  outside the canvas).
\<close>

theorem crop_positive_drag:
  fixes s :: "'a view_scheme"
  assumes "0 < w" and "0 < h"
  shows "let s1 = onMouseMove stroke \<lparr>offsetX = x + w, offsetY = y + h\<rparr>
                    (startCrop \<lparr>offsetX = x, offsetY = y\<rparr> s);
             img = raster (nat w) (nat h) (\<lambda>i j. pixel_at (pdfCanvas s1) (x + i) (y + j))
         in body (endCrop s1) = body s @
              [CanvasNode img,
               DownloadLink (Png img) ''cropped_image.png'' ''Download Cropped Image'']
          \<and> exported (body (endCrop s1)) = exported (body s) @ [img]
          \<and> console (endCrop s1) = console s
          \<and> width img = nat w \<and> height img = nat h
          \<and> (\<forall>i j. 0 \<le> i \<and> i < w \<and> 0 \<le> j \<and> j < h \<longrightarrow>
                 pixel_at img i j = pixel_at (pdfCanvas s1) (x + i) (y + j))"
proof -
  define s1 where "s1 = onMouseMove stroke \<lparr>offsetX = x + w, offsetY = y + h\<rparr>
                    (startCrop \<lparr>offsetX = x, offsetY = y\<rparr> s)"
  define img where
    "img = raster (nat w) (nat h) (\<lambda>i j. pixel_at (pdfCanvas s1) (x + i) (y + j))"
  have d: "cropStartX s1 = x \<and> cropStartY s1 = y \<and> cropWidth s1 = w \<and> cropHeight s1 = h
     \<and> body s1 = body s \<and> console s1 = console s"
    using drag_state [OF s1_def [symmetric]] by simp
  let ?s2 = "s1\<lparr>isSelecting := False\<rparr>"
  have e: "endCrop s1 = cropImage ?s2"
    using assms d by (simp add: endCrop_def)
  have "0 < cropWidth ?s2" and "0 < cropHeight ?s2"
    using assms d by simp_all
  note c = cropImage_positive [OF this]
  have b: "body (endCrop s1) = body s @
           [CanvasNode img, DownloadLink (Png img) ''cropped_image.png'' ''Download Cropped Image'']"
    using d by (simp add: e c Let_def img_def)
  have k: "console (endCrop s1) = console s"
    using d by (simp add: e c Let_def)
  have x: "exported (body (endCrop s1)) = exported (body s) @ [img]"
    by (simp add: b exported_append)
  have wh: "width img = nat w \<and> height img = nat h"
    by (simp add: img_def width_raster height_raster)
  have px: "\<forall>i j. 0 \<le> i \<and> i < w \<and> 0 \<le> j \<and> j < h \<longrightarrow>
           pixel_at img i j = pixel_at (pdfCanvas s1) (x + i) (y + j)"
    by (simp add: img_def pixel_at_raster)
  from b x k wh px show ?thesis
    unfolding Let_def s1_def [symmetric] img_def [symmetric] by blast
qed

text \<open>
  On the first page of a one-page sample document, a drag from \<open>(1, 1)\<close> by \<open>4\<close> and \<open>3\<close>
  exports 4 by 3 pixels: the red outline, and inside it the page's pixels \<open>(2, 2)\<close> and
  \<open>(3, 2)\<close>.
\<close>

theorem crop_positive_drag_witness:
  "(0::int) < 4 \<and> (0::int) < 3
   \<and> exported (body (endCrop (onMouseMove outline \<lparr>offsetX = 1 + 4, offsetY = 1 + 3\<rparr>
         (startCrop \<lparr>offsetX = 1, offsetY = 1\<rparr> (loadPdf [Inr (sample_doc 1)] init))))) =
       [\<lparr>width = 4, height = 3,
         pixels = [ [red, red, red, red],
                    [red, (2, 2, 0, 255), (3, 2, 0, 255), red],
                    [red, red, red, red] ]\<rparr>]"
proof -
  let ?s = "loadPdf [Inr (sample_doc 1)] init"
  let ?s1 = "onMouseMove outline \<lparr>offsetX = 1 + 4, offsetY = 1 + 3\<rparr>
               (startCrop \<lparr>offsetX = 1, offsetY = 1\<rparr> ?s)"
  have img: "raster (nat 4) (nat 3) (\<lambda>i j. pixel_at (pdfCanvas ?s1) (1 + i) (1 + j)) =
       \<lparr>width = 4, height = 3,
         pixels = [ [red, red, red, red],
                    [red, (2, 2, 0, 255), (3, 2, 0, 255), red],
                    [red, red, red, red] ]\<rparr>"
    by code_simp
  have p: "(0::int) < 4" "(0::int) < 3"
    by simp_all
  note t = crop_positive_drag [OF p, of outline 1 1 ?s, unfolded Let_def]
  have x: "exported (body (endCrop ?s1)) =
       exported (body ?s) @
       [\<lparr>width = 4, height = 3,
         pixels = [ [red, red, red, red],
                    [red, (2, 2, 0, 255), (3, 2, 0, 255), red],
                    [red, red, red, red] ]\<rparr>]"
    using t [THEN conjunct2, THEN conjunct1] by (simp only: img)
  show ?thesis
    using x by (simp add: view_loadPdf view_init del: loadPdf.simps)
qed

subsection \<open>C2: a drag up or to the left\<close>

text \<open>
  Claim C2 says that a drag with negative deltas exports an image of \<open>|width|\<close> by
  \<open>|height|\<close>. \<open>cropImage\<close> sizes the new canvas with \<^verbatim>\<open>Math.abs\<close> for that, but its
  guard, commented as a check for non-zero width and height, tests \<^verbatim>\<open><= 0\<close>: on the
  drag from \<open>(5, 4)\<close> to \<open>(1, 1)\<close> the deltas are \<open>- 4\<close> and \<open>- 3\<close>, no image is
  appended and the error line is written.
\<close>

theorem negative_drag_exports_nothing:
  "cropWidth (onMouseMove outline \<lparr>offsetX = 5 + (- 4), offsetY = 4 + (- 3)\<rparr>
       (startCrop \<lparr>offsetX = 5, offsetY = 4\<rparr> (loadPdf [Inr (sample_doc 1)] init))) = - 4
   \<and> cropHeight (onMouseMove outline \<lparr>offsetX = 5 + (- 4), offsetY = 4 + (- 3)\<rparr>
       (startCrop \<lparr>offsetX = 5, offsetY = 4\<rparr> (loadPdf [Inr (sample_doc 1)] init))) = - 3
   \<and> body (endCrop (onMouseMove outline \<lparr>offsetX = 5 + (- 4), offsetY = 4 + (- 3)\<rparr>
       (startCrop \<lparr>offsetX = 5, offsetY = 4\<rparr> (loadPdf [Inr (sample_doc 1)] init)))) = []
   \<and> console (endCrop (onMouseMove outline \<lparr>offsetX = 5 + (- 4), offsetY = 4 + (- 3)\<rparr>
       (startCrop \<lparr>offsetX = 5, offsetY = 4\<rparr> (loadPdf [Inr (sample_doc 1)] init)))) =
       [''Invalid crop area'']"
proof -
  let ?s = "loadPdf [Inr (sample_doc 1)] init"
  let ?s1 = "onMouseMove outline \<lparr>offsetX = 5 + (- 4), offsetY = 4 + (- 3)\<rparr>
               (startCrop \<lparr>offsetX = 5, offsetY = 4\<rparr> ?s)"
  have d: "cropWidth ?s1 = - 4 \<and> cropHeight ?s1 = - 3 \<and> body ?s1 = [] \<and> console ?s1 = []"
    using drag_state [of outline 5 "- 4" 4 "- 3" ?s ?s1]
    by (simp add: view_loadPdf view_init del: loadPdf.simps)
  then show ?thesis
    by (simp add: endCrop_def cropImage_rejected)
qed

subsection \<open>C3: loading a second document\<close>

text \<open>
  Claim C3 says that a load resets the page index to 1. \<open>loadPdf\<close> renders
  \<open>currentPage\<close> under the comment "Render the first page" and never assigns it: after
  a three-page document was paged to its page 3, loading a five-page document sets the
  page count to 5 and leaves the page index at 3. The other variant does the same with
  \<open>pageNum\<close>.
\<close>

theorem second_load_keeps_page_index:
  "currentPage (run [Load [Inr (sample_doc 3)], Forward, Forward] init) = 3
   \<and> currentPage (loadPdf [Inr (sample_doc 5)]
        (run [Load [Inr (sample_doc 3)], Forward, Forward] init)) = 3
   \<and> totalPages (loadPdf [Inr (sample_doc 5)]
        (run [Load [Inr (sample_doc 3)], Forward, Forward] init)) = 5
   \<and> pageNum (loadPdf_copy [Inr (sample_doc 5)]
        (goToNextPage_copy (goToNextPage_copy (loadPdf_copy [Inr (sample_doc 3)] init_copy)))) = 3"
  by (simp add: run_def nav_simps numPages_sample_doc init_def init_copy_def)

subsection \<open>C4: navigation past either end\<close>

text \<open>
  Claim C4. Page-back on page 1 and page-forward on the last page change nothing: the
  whole state, and so the page index and both canvases, is the one before. This holds
  in both variants.
\<close>

theorem out_of_range_navigation:
  "(currentPage s = 1 \<longrightarrow> goToPreviousPage s = s)
   \<and> (currentPage s' = totalPages s' \<longrightarrow> goToNextPage s' = s')
   \<and> (pageNum t = 1 \<longrightarrow> goToPreviousPage_copy t = t)
   \<and> (pdfDoc t' = Some d \<and> pageNum t' = numPages d \<longrightarrow> goToNextPage_copy t' = t')"
  by (simp add: goToPreviousPage_def goToNextPage_def goToPreviousPage_copy_def
      goToNextPage_copy_def)

theorem out_of_range_navigation_witness:
  "currentPage (loadPdf [Inr (sample_doc 2)] init) = 1
   \<and> goToPreviousPage (loadPdf [Inr (sample_doc 2)] init) = loadPdf [Inr (sample_doc 2)] init
   \<and> currentPage (goToNextPage (loadPdf [Inr (sample_doc 2)] init))
       = totalPages (goToNextPage (loadPdf [Inr (sample_doc 2)] init))
   \<and> goToNextPage (goToNextPage (loadPdf [Inr (sample_doc 2)] init))
       = goToNextPage (loadPdf [Inr (sample_doc 2)] init)
   \<and> pageNum (loadPdf_copy [Inr (sample_doc 2)] init_copy) = 1
   \<and> goToPreviousPage_copy (loadPdf_copy [Inr (sample_doc 2)] init_copy)
       = loadPdf_copy [Inr (sample_doc 2)] init_copy
   \<and> pdfDoc (goToNextPage_copy (loadPdf_copy [Inr (sample_doc 2)] init_copy)) = Some (sample_doc 2)
   \<and> pageNum (goToNextPage_copy (loadPdf_copy [Inr (sample_doc 2)] init_copy)) = numPages (sample_doc 2)
   \<and> goToNextPage_copy (goToNextPage_copy (loadPdf_copy [Inr (sample_doc 2)] init_copy))
       = goToNextPage_copy (loadPdf_copy [Inr (sample_doc 2)] init_copy)"
proof -
  let ?s = "loadPdf [Inr (sample_doc 2)] init"
  let ?t = "loadPdf_copy [Inr (sample_doc 2)] init_copy"
  have a: "currentPage ?s = 1"
    by (simp add: nav_simps init_def)
  have b: "currentPage (goToNextPage ?s) = totalPages (goToNextPage ?s)"
    by (simp add: nav_simps numPages_sample_doc init_def)
  have c: "pageNum ?t = 1"
    by (simp add: nav_simps init_copy_def)
  have d: "pdfDoc (goToNextPage_copy ?t) = Some (sample_doc 2)"
    by (simp add: nav_simps)
  have e: "pageNum (goToNextPage_copy ?t) = numPages (sample_doc 2)"
    by (simp add: nav_simps numPages_sample_doc init_copy_def)
  show ?thesis
    using a b c d e
      out_of_range_navigation [of ?s "goToNextPage ?s" ?t "goToNextPage_copy ?t" "sample_doc 2"]
    by simp
qed

subsection \<open>C5: ending a selection that cannot be exported\<close>

text \<open>
  Claim C5 says that every crop-end on an invalid rectangle logs an error. After a
  drag straight down from \<open>(3, 1)\<close> to \<open>(3, 4)\<close> the width is 0, \<open>endCrop\<close> returns
  before \<open>cropImage\<close>, and the console is as empty as before.
\<close>

theorem endCrop_zero_width_counterexample:
  "cropWidth (onMouseMove outline \<lparr>offsetX = 3 + 0, offsetY = 1 + 3\<rparr>
       (startCrop \<lparr>offsetX = 3, offsetY = 1\<rparr> (loadPdf [Inr (sample_doc 1)] init))) = 0
   \<and> body (endCrop (onMouseMove outline \<lparr>offsetX = 3 + 0, offsetY = 1 + 3\<rparr>
       (startCrop \<lparr>offsetX = 3, offsetY = 1\<rparr> (loadPdf [Inr (sample_doc 1)] init)))) = []
   \<and> console (endCrop (onMouseMove outline \<lparr>offsetX = 3 + 0, offsetY = 1 + 3\<rparr>
       (startCrop \<lparr>offsetX = 3, offsetY = 1\<rparr> (loadPdf [Inr (sample_doc 1)] init)))) = []"
proof -
  let ?s = "loadPdf [Inr (sample_doc 1)] init"
  let ?s1 = "onMouseMove outline \<lparr>offsetX = 3 + 0, offsetY = 1 + 3\<rparr>
               (startCrop \<lparr>offsetX = 3, offsetY = 1\<rparr> ?s)"
  have d: "cropWidth ?s1 = 0 \<and> body ?s1 = [] \<and> console ?s1 = []"
    using drag_state [of outline 3 0 1 3 ?s ?s1]
    by (simp add: view_loadPdf view_init del: loadPdf.simps)
  then show ?thesis
    by (simp add: endCrop_def)
qed

text \<open>
  Claim C5, amended. A crop-end on a rectangle whose width or height is zero or negative
  appends no image and leaves the start point, the width and the height as they are.
  The error line is written exactly when neither the width nor the height is zero (the
  sign is what is rejected); a zero width or height ends the gesture with no line
  written.
\<close>

theorem endCrop_invalid_geometry:
  assumes "cropWidth s \<le> 0 \<or> cropHeight s \<le> 0"
  shows "body (endCrop s) = body s
       \<and> cropStartX (endCrop s) = cropStartX s \<and> cropStartY (endCrop s) = cropStartY s
       \<and> cropWidth (endCrop s) = cropWidth s \<and> cropHeight (endCrop s) = cropHeight s
       \<and> console (endCrop s) =
           (if cropWidth s = 0 \<or> cropHeight s = 0 then console s
            else console s @ [''Invalid crop area''])"
  using assms by (auto simp add: endCrop_def cropImage_rejected)

theorem endCrop_invalid_geometry_witness:
  "(cropWidth (onMouseMove outline \<lparr>offsetX = 3 + (- 2), offsetY = 2 + (- 1)\<rparr>
       (startCrop \<lparr>offsetX = 3, offsetY = 2\<rparr> (loadPdf [Inr (sample_doc 1)] init))) \<le> 0
    \<or> cropHeight (onMouseMove outline \<lparr>offsetX = 3 + (- 2), offsetY = 2 + (- 1)\<rparr>
       (startCrop \<lparr>offsetX = 3, offsetY = 2\<rparr> (loadPdf [Inr (sample_doc 1)] init))) \<le> 0)
   \<and> body (endCrop (onMouseMove outline \<lparr>offsetX = 3 + (- 2), offsetY = 2 + (- 1)\<rparr>
       (startCrop \<lparr>offsetX = 3, offsetY = 2\<rparr> (loadPdf [Inr (sample_doc 1)] init)))) = []
   \<and> cropWidth (endCrop (onMouseMove outline \<lparr>offsetX = 3 + (- 2), offsetY = 2 + (- 1)\<rparr>
       (startCrop \<lparr>offsetX = 3, offsetY = 2\<rparr> (loadPdf [Inr (sample_doc 1)] init)))) = - 2
   \<and> cropHeight (endCrop (onMouseMove outline \<lparr>offsetX = 3 + (- 2), offsetY = 2 + (- 1)\<rparr>
       (startCrop \<lparr>offsetX = 3, offsetY = 2\<rparr> (loadPdf [Inr (sample_doc 1)] init)))) = - 1
   \<and> console (endCrop (onMouseMove outline \<lparr>offsetX = 3 + (- 2), offsetY = 2 + (- 1)\<rparr>
       (startCrop \<lparr>offsetX = 3, offsetY = 2\<rparr> (loadPdf [Inr (sample_doc 1)] init)))) =
       [''Invalid crop area'']"
proof -
  let ?s = "loadPdf [Inr (sample_doc 1)] init"
  let ?s1 = "onMouseMove outline \<lparr>offsetX = 3 + (- 2), offsetY = 2 + (- 1)\<rparr>
               (startCrop \<lparr>offsetX = 3, offsetY = 2\<rparr> ?s)"
  have d: "cropWidth ?s1 = - 2 \<and> cropHeight ?s1 = - 1 \<and> body ?s1 = [] \<and> console ?s1 = []"
    using drag_state [of outline 3 "- 2" 2 "- 1" ?s ?s1]
    by (simp add: view_loadPdf view_init del: loadPdf.simps)
  then have h: "cropWidth ?s1 \<le> 0 \<or> cropHeight ?s1 \<le> 0"
    by simp
  show ?thesis
    using d endCrop_invalid_geometry [OF h] by simp
qed

subsection \<open>C6: forward, then back\<close>

text \<open>
  Claim C6. From a page index \<open>p\<close> with \<open>1 \<le> p\<close> and \<open>p\<close> below the page count,
  page-forward moves to \<open>p + 1\<close> and page-back after it returns to \<open>p\<close>, in both
  variants.
\<close>

theorem forward_then_back:
  "(1 \<le> currentPage s \<and> currentPage s < totalPages s \<longrightarrow>
      currentPage (goToNextPage s) = currentPage s + 1
      \<and> currentPage (goToPreviousPage (goToNextPage s)) = currentPage s)
   \<and> (pdfDoc t = Some d \<and> 1 \<le> pageNum t \<and> pageNum t < numPages d \<longrightarrow>
      pageNum (goToNextPage_copy t) = pageNum t + 1
      \<and> pageNum (goToPreviousPage_copy (goToNextPage_copy t)) = pageNum t)"
  by (simp add: currentPage_goToNextPage currentPage_goToPreviousPage
      totalPages_goToNextPage pageNum_goToNextPage_copy pageNum_goToPreviousPage_copy)

theorem forward_then_back_witness:
  "1 \<le> currentPage (loadPdf [Inr (sample_doc 3)] init)
   \<and> currentPage (loadPdf [Inr (sample_doc 3)] init) < totalPages (loadPdf [Inr (sample_doc 3)] init)
   \<and> currentPage (goToNextPage (loadPdf [Inr (sample_doc 3)] init)) = 2
   \<and> currentPage (goToPreviousPage (goToNextPage (loadPdf [Inr (sample_doc 3)] init))) = 1
   \<and> pdfDoc (loadPdf_copy [Inr (sample_doc 3)] init_copy) = Some (sample_doc 3)
   \<and> 1 \<le> pageNum (loadPdf_copy [Inr (sample_doc 3)] init_copy)
   \<and> pageNum (loadPdf_copy [Inr (sample_doc 3)] init_copy) < numPages (sample_doc 3)
   \<and> pageNum (goToNextPage_copy (loadPdf_copy [Inr (sample_doc 3)] init_copy)) = 2
   \<and> pageNum (goToPreviousPage_copy (goToNextPage_copy (loadPdf_copy [Inr (sample_doc 3)] init_copy))) = 1"
proof -
  let ?s = "loadPdf [Inr (sample_doc 3)] init"
  let ?t = "loadPdf_copy [Inr (sample_doc 3)] init_copy"
  have a: "currentPage ?s = 1" and b: "totalPages ?s = 3"
    by (simp_all add: nav_simps numPages_sample_doc init_def)
  have c: "pdfDoc ?t = Some (sample_doc 3)" and d: "pageNum ?t = 1"
    by (simp_all add: nav_simps init_copy_def)
  show ?thesis
    using a b c d forward_then_back [of ?s ?t "sample_doc 3"]
    by (simp add: numPages_sample_doc)
qed

subsection \<open>C7: the page index and the page count\<close>

text \<open>
  Claim C7 says that the page index stays between 1 and the page count of the loaded
  document over every sequence of loads and navigations. A load keeps the page index
  (see C3), and \<open>renderPage\<close> returns at once when that index is beyond the new count:
  after a three-page document was paged to its page 3, loading a two-page document
  leaves the page index at 3 with a page count of 2.
\<close>

theorem page_index_exceeds_page_count:
  "pdfDoc (run [Load [Inr (sample_doc 3)], Forward, Forward, Load [Inr (sample_doc 2)]] init)
     = Some (sample_doc 2)
   \<and> totalPages (run [Load [Inr (sample_doc 3)], Forward, Forward, Load [Inr (sample_doc 2)]] init) = 2
   \<and> currentPage (run [Load [Inr (sample_doc 3)], Forward, Forward, Load [Inr (sample_doc 2)]] init) = 3"
  by (simp add: run_def nav_simps pdfDoc_loadPdf numPages_sample_doc init_def del: loadPdf.simps)

subsection \<open>C8: the two variants' navigation\<close>

text \<open>
  Claim C8 says that the two variants move the page index alike from every state. With
  a page index of 3 and a page count of 1 (a one-page document loaded over page 3 of a
  longer one), page-back stays at 3 where \<open>renderPage\<close> holds the guard, and goes to 2
  in the variant whose guard is in \<open>goToPreviousPage\<close>.
\<close>

theorem variants_agree_counterexample:
  "totalPages (run [Load [Inr (sample_doc 3)], Forward, Forward, Load [Inr (sample_doc 1)]] init) = 1
   \<and> currentPage (run [Load [Inr (sample_doc 3)], Forward, Forward, Load [Inr (sample_doc 1)]] init) = 3
   \<and> pdfDoc (loadPdf_copy [Inr (sample_doc 1)] (goToNextPage_copy (goToNextPage_copy
        (loadPdf_copy [Inr (sample_doc 3)] init_copy)))) = Some (sample_doc 1)
   \<and> numPages (sample_doc 1) = 1
   \<and> pageNum (loadPdf_copy [Inr (sample_doc 1)] (goToNextPage_copy (goToNextPage_copy
        (loadPdf_copy [Inr (sample_doc 3)] init_copy)))) = 3
   \<and> currentPage (goToPreviousPage
        (run [Load [Inr (sample_doc 3)], Forward, Forward, Load [Inr (sample_doc 1)]] init)) = 3
   \<and> pageNum (goToPreviousPage_copy
        (loadPdf_copy [Inr (sample_doc 1)] (goToNextPage_copy (goToNextPage_copy
        (loadPdf_copy [Inr (sample_doc 3)] init_copy))))) = 2"
  by (simp add: run_def nav_simps numPages_sample_doc init_def init_copy_def)

text \<open>
  Claim C8, amended. From the same page index \<open>p\<close> and the same page count \<open>n\<close>, the two
  variants' page-forward give the same index exactly when \<open>0 \<le> p\<close> or \<open>n \<le> p\<close>, and
  their page-back exactly when \<open>p \<le> 1\<close> or \<open>p \<le> n + 1\<close>; in particular they agree
  on both whenever \<open>1 \<le> p \<le> n\<close>.
\<close>

theorem variants_agree:
  assumes "pdfDoc t = Some d" and "totalPages s = numPages d" and "currentPage s = pageNum t"
  shows "(currentPage (goToNextPage s) = pageNum (goToNextPage_copy t)
            \<longleftrightarrow> 0 \<le> pageNum t \<or> numPages d \<le> pageNum t)
       \<and> (currentPage (goToPreviousPage s) = pageNum (goToPreviousPage_copy t)
            \<longleftrightarrow> pageNum t \<le> 1 \<or> pageNum t \<le> numPages d + 1)
       \<and> (1 \<le> pageNum t \<and> pageNum t \<le> numPages d \<longrightarrow>
            currentPage (goToNextPage s) = pageNum (goToNextPage_copy t)
            \<and> currentPage (goToPreviousPage s) = pageNum (goToPreviousPage_copy t))"
  using assms
  by (auto simp add: currentPage_goToNextPage currentPage_goToPreviousPage
      pageNum_goToNextPage_copy pageNum_goToPreviousPage_copy)

theorem variants_agree_witness:
  "pdfDoc (goToNextPage_copy (loadPdf_copy [Inr (sample_doc 3)] init_copy)) = Some (sample_doc 3)
   \<and> totalPages (goToNextPage (loadPdf [Inr (sample_doc 3)] init)) = numPages (sample_doc 3)
   \<and> currentPage (goToNextPage (loadPdf [Inr (sample_doc 3)] init))
       = pageNum (goToNextPage_copy (loadPdf_copy [Inr (sample_doc 3)] init_copy))
   \<and> 1 \<le> pageNum (goToNextPage_copy (loadPdf_copy [Inr (sample_doc 3)] init_copy))
   \<and> pageNum (goToNextPage_copy (loadPdf_copy [Inr (sample_doc 3)] init_copy)) \<le> numPages (sample_doc 3)
   \<and> currentPage (goToNextPage (goToNextPage (loadPdf [Inr (sample_doc 3)] init)))
       = pageNum (goToNextPage_copy (goToNextPage_copy (loadPdf_copy [Inr (sample_doc 3)] init_copy)))
   \<and> currentPage (goToPreviousPage (goToNextPage (loadPdf [Inr (sample_doc 3)] init)))
       = pageNum (goToPreviousPage_copy (goToNextPage_copy (loadPdf_copy [Inr (sample_doc 3)] init_copy)))"
proof -
  let ?s = "goToNextPage (loadPdf [Inr (sample_doc 3)] init)"
  let ?t = "goToNextPage_copy (loadPdf_copy [Inr (sample_doc 3)] init_copy)"
  have a: "pdfDoc ?t = Some (sample_doc 3)"
    by (simp add: nav_simps)
  have b: "totalPages ?s = numPages (sample_doc 3)"
    by (simp add: nav_simps)
  have p: "pageNum ?t = 2"
    by (simp add: nav_simps numPages_sample_doc init_copy_def)
  have c: "currentPage ?s = pageNum ?t"
    by (simp add: nav_simps numPages_sample_doc init_def init_copy_def)
  show ?thesis
    using a b c p variants_agree [OF a b c]
    by (simp add: numPages_sample_doc)
qed

subsection \<open>C9: a click without a drag\<close>

text \<open>
  Claim C9. Crop-start followed at once by crop-end takes the early return of
  \<open>endCrop\<close>: the state is that of crop-start with the selecting flag cleared, so no
  image is appended, and nothing is logged or thrown, which \<open>cropImage\<close> would have done.
\<close>

theorem click_without_drag:
  "endCrop (startCrop e s) = (startCrop e s)\<lparr>isSelecting := False\<rparr>
   \<and> body (endCrop (startCrop e s)) = body s
   \<and> exported (body (endCrop (startCrop e s))) = exported (body s)
   \<and> console (endCrop (startCrop e s)) = console s
   \<and> uncaught (endCrop (startCrop e s)) = uncaught s"
  by (simp add: endCrop_def startCrop_def)

theorem click_without_drag_witness:
  "body (endCrop (startCrop \<lparr>offsetX = 2, offsetY = 2\<rparr> (loadPdf [Inr (sample_doc 1)] init))) = []
   \<and> console (endCrop (startCrop \<lparr>offsetX = 2, offsetY = 2\<rparr> (loadPdf [Inr (sample_doc 1)] init))) = []"
proof -
  let ?s = "loadPdf [Inr (sample_doc 1)] init"
  let ?e = "\<lparr>offsetX = 2, offsetY = 2\<rparr>"
  have "body (endCrop (startCrop ?e ?s)) = body ?s \<and> console (endCrop (startCrop ?e ?s)) = console ?s"
    using click_without_drag [of ?e ?s] by blast
  then show ?thesis
    by (simp add: view_loadPdf view_init del: loadPdf.simps)
qed

subsection \<open>C10: after crop-end\<close>

text \<open>
  Claim C10. After \<open>endCrop\<close> the selecting flag is false whatever the selection was, and
  any number of mouse-moves after it leave the state, and with it the stored start
  point, width and height, as \<open>endCrop\<close> left them: those of the state before.
\<close>

theorem endCrop_clears_selecting:
  "isSelecting (endCrop s) = False
   \<and> foldl (\<lambda>t e. onMouseMove stroke e t) (endCrop s) es = endCrop s
   \<and> cropStartX (endCrop s) = cropStartX s \<and> cropStartY (endCrop s) = cropStartY s
   \<and> cropWidth (endCrop s) = cropWidth s \<and> cropHeight (endCrop s) = cropHeight s"
proof -
  have f: "\<not> isSelecting (endCrop s)"
    by (simp add: endCrop_def isSelecting_cropImage)
  have r: "cropStartX (endCrop s) = cropStartX s \<and> cropStartY (endCrop s) = cropStartY s
   \<and> cropWidth (endCrop s) = cropWidth s \<and> cropHeight (endCrop s) = cropHeight s"
    by (simp add: endCrop_def rect_cropImage)
  from f r moves_idle [OF f] show ?thesis by simp
qed

theorem endCrop_clears_selecting_witness:
  "\<not> isSelecting (endCrop (onMouseMove outline \<lparr>offsetX = 1 + 4, offsetY = 1 + 3\<rparr>
       (startCrop \<lparr>offsetX = 1, offsetY = 1\<rparr> (loadPdf [Inr (sample_doc 1)] init))))
   \<and> cropWidth (onMouseMove outline \<lparr>offsetX = 0, offsetY = 2\<rparr>
       (onMouseMove outline \<lparr>offsetX = 5, offsetY = 0\<rparr>
         (endCrop (onMouseMove outline \<lparr>offsetX = 1 + 4, offsetY = 1 + 3\<rparr>
           (startCrop \<lparr>offsetX = 1, offsetY = 1\<rparr> (loadPdf [Inr (sample_doc 1)] init)))))) = 4
   \<and> cropHeight (onMouseMove outline \<lparr>offsetX = 0, offsetY = 2\<rparr>
       (onMouseMove outline \<lparr>offsetX = 5, offsetY = 0\<rparr>
         (endCrop (onMouseMove outline \<lparr>offsetX = 1 + 4, offsetY = 1 + 3\<rparr>
           (startCrop \<lparr>offsetX = 1, offsetY = 1\<rparr> (loadPdf [Inr (sample_doc 1)] init)))))) = 3"
proof -
  let ?s = "loadPdf [Inr (sample_doc 1)] init"
  let ?s1 = "onMouseMove outline \<lparr>offsetX = 1 + 4, offsetY = 1 + 3\<rparr>
               (startCrop \<lparr>offsetX = 1, offsetY = 1\<rparr> ?s)"
  let ?es = "[\<lparr>offsetX = 5, offsetY = 0\<rparr>, \<lparr>offsetX = 0, offsetY = 2\<rparr>]"
  have d: "cropWidth ?s1 = 4 \<and> cropHeight ?s1 = 3"
    using drag_state [of outline 1 4 1 3 ?s ?s1] by simp
  note t = endCrop_clears_selecting [of ?s1 outline ?es]
  have m: "onMouseMove outline \<lparr>offsetX = 0, offsetY = 2\<rparr>
         (onMouseMove outline \<lparr>offsetX = 5, offsetY = 0\<rparr> (endCrop ?s1)) = endCrop ?s1"
    using t [THEN conjunct2, THEN conjunct1] by (simp only: foldl.simps)
  have r: "cropWidth (endCrop ?s1) = cropWidth ?s1 \<and> cropHeight (endCrop ?s1) = cropHeight ?s1"
    using t by blast
  have f: "\<not> isSelecting (endCrop ?s1)"
    using t by blast
  show ?thesis
    unfolding m using f r d by (simp only: simp_thms)
qed

end
